theory Spec2Isabelle
  imports Main "HOL-Library.Multiset"
begin

section \<open>Python values\<close>

text \<open>
  The program is dynamically typed: \<open>az_info\<close>, the health events and the request are
  dictionaries whose values may be anything. Values are modelled by one datatype. A
  dictionary is an association list in insertion order (keys are strings, each key once).
  The type parameter \<open>'dt\<close> stands for \<open>datetime.datetime\<close>, of which the program only
  calls \<open>isoformat()\<close>.
\<close>

datatype 'dt pyval =
    PNone
  | PBool bool
  | PInt int
  | PStr string
  | PDatetime 'dt
  | PList "'dt pyval list"
  | PDict "(string \<times> 'dt pyval) list"

type_synonym 'dt pydict = "(string \<times> 'dt pyval) list"

text \<open>
  Exceptions are values. \<open>ClientError\<close> carries \<open>e.response['Error']['Code']\<close>;
  the other constructors are the built-in exceptions the modelled operations raise, and
  \<open>OtherException\<close> is any further exception an external call may raise.
\<close>

datatype exn =
    ClientError string
  | AttributeError
  | TypeError
  | KeyError
  | IndexError
  | OtherException string

definition and_then :: "exn + 'a \<Rightarrow> ('a \<Rightarrow> exn + 'b) \<Rightarrow> exn + 'b" where
  "and_then r f = (case r of Inl e \<Rightarrow> Inl e | Inr v \<Rightarrow> f v)"

text \<open>
  Library functions that are not part of the repository are parameters:
  \<open>isoformat\<close> is \<open>datetime.isoformat\<close>, \<open>str_other\<close> is \<open>str()\<close> on values
  that are neither \<open>str\<close>, \<open>None\<close> nor \<open>bool\<close>.
\<close>

record 'dt pylib =
  isoformat :: "'dt \<Rightarrow> string"
  str_other :: "'dt pyval \<Rightarrow> string"

text \<open>Truth value testing (\<open>if x\<close>, \<open>not x\<close>).\<close>

fun truthy :: "'dt pyval \<Rightarrow> bool" where
  "truthy PNone = False"
| "truthy (PBool b) = b"
| "truthy (PInt i) = (i \<noteq> 0)"
| "truthy (PStr s) = (s \<noteq> [])"
| "truthy (PDatetime t) = True"
| "truthy (PList xs) = (xs \<noteq> [])"
| "truthy (PDict d) = (d \<noteq> [])"

text \<open>\<open>d.get(k, default)\<close> and \<open>d[k]\<close> on a dictionary.\<close>

definition dict_get :: "'dt pydict \<Rightarrow> string \<Rightarrow> 'dt pyval \<Rightarrow> 'dt pyval" where
  "dict_get d k dflt = (case map_of d k of Some v \<Rightarrow> v | None \<Rightarrow> dflt)"

definition dict_getitem :: "'dt pydict \<Rightarrow> string \<Rightarrow> exn + 'dt pyval" where
  "dict_getitem d k = (case map_of d k of Some v \<Rightarrow> Inr v | None \<Rightarrow> Inl KeyError)"

text \<open>
  Iteration (\<open>for x in v\<close>): a list yields its elements, a string its characters, a
  dictionary its keys; the other values are not iterable.
\<close>

fun py_iter :: "'dt pyval \<Rightarrow> exn + 'dt pyval list" where
  "py_iter (PList xs) = Inr xs"
| "py_iter (PStr s) = Inr (map (\<lambda>c. PStr [c]) s)"
| "py_iter (PDict d) = Inr (map (\<lambda>kv. PStr (fst kv)) d)"
| "py_iter PNone = Inl TypeError"
| "py_iter (PBool b) = Inl TypeError"
| "py_iter (PInt i) = Inl TypeError"
| "py_iter (PDatetime t) = Inl TypeError"

text \<open>A replacement field \<open>{v}\<close> of an f-string.\<close>

fun py_format :: "'dt pylib \<Rightarrow> 'dt pyval \<Rightarrow> string" where
  "py_format L (PStr s) = s"
| "py_format L PNone = ''None''"
| "py_format L (PBool b) = (if b then ''True'' else ''False'')"
| "py_format L v = str_other L v"

section \<open>The classifier \<open>analyze_health_status\<close>\<close>

text \<open>
  The local variables of \<open>analyze_health_status\<close>. \<open>severity\<close> is a string in the
  source and stays one here.
\<close>

record 'dt locals =
  issues :: "'dt pyval list"
  severity :: string
  critical_events :: "'dt pyval list"
  warning_events :: "'dt pyval list"

definition initial_locals :: "'dt locals" where
  "initial_locals = \<lparr>issues = [], severity = ''healthy'', critical_events = [], warning_events = []\<rparr>"

text \<open>The dictionary returned when the zone does not exist (source lines 139 to 145).\<close>

definition not_found_verdict :: "'dt pyval" where
  "not_found_verdict = PDict
     [(''status'', PStr ''error''),
      (''severity'', PStr ''critical''),
      (''message'', PStr ''Availability Zone does not exist''),
      (''issues'', PList [PStr ''AZ not found'']),
      (''health_events'', PList [])]"

text \<open>Check AZ state (source lines 148 to 150).\<close>

definition check_state :: "'dt pylib \<Rightarrow> 'dt pydict \<Rightarrow> 'dt locals \<Rightarrow> 'dt locals" where
  "check_state L az st =
     (if dict_get az ''state'' PNone \<noteq> PStr ''available''
      then st\<lparr>issues := issues st @
                  [PStr (''AZ state is '' @ py_format L (dict_get az ''state'' PNone)
                         @ '' (expected: available)'')],
              severity := ''critical''\<rparr>
      else st)"

text \<open>Check for AZ-specific messages (source lines 153 to 157).\<close>

definition check_messages :: "'dt pylib \<Rightarrow> 'dt pydict \<Rightarrow> 'dt locals \<Rightarrow> exn + 'dt locals" where
  "check_messages L az st =
     (if truthy (dict_get az ''messages'' PNone)
      then and_then (dict_getitem az ''messages'') (\<lambda>messages.
           and_then (py_iter messages) (\<lambda>msgs.
             let st' = st\<lparr>issues := issues st @
                           map (\<lambda>msg. PStr (''AZ message: '' @ py_format L msg)) msgs\<rparr>
             in Inr (if severity st' = ''healthy'' then st'\<lparr>severity := ''warning''\<rparr> else st')))
      else Inr st)"

text \<open>
  \<open>event.get(k).isoformat() if event.get(k) else None\<close> (source lines 171 to 173): a
  value that is true and has no \<open>isoformat\<close> raises.
\<close>

definition isoformat_or_none :: "'dt pylib \<Rightarrow> 'dt pyval \<Rightarrow> exn + 'dt pyval" where
  "isoformat_or_none L v =
     (if truthy v
      then (case v of PDatetime t \<Rightarrow> Inr (PStr (isoformat L t)) | _ \<Rightarrow> Inl AttributeError)
      else Inr PNone)"

text \<open>The dictionary \<open>event_info\<close> (source lines 164 to 174).\<close>

definition event_info :: "'dt pylib \<Rightarrow> 'dt pydict \<Rightarrow> exn + 'dt pyval" where
  "event_info L ev =
     and_then (isoformat_or_none L (dict_get ev ''startTime'' PNone)) (\<lambda>start_time.
     and_then (isoformat_or_none L (dict_get ev ''endTime'' PNone)) (\<lambda>end_time.
     and_then (isoformat_or_none L (dict_get ev ''lastUpdatedTime'' PNone)) (\<lambda>last_updated.
       Inr (PDict
         [(''arn'', dict_get ev ''arn'' PNone),
          (''service'', dict_get ev ''service'' PNone),
          (''event_type_code'', dict_get ev ''eventTypeCode'' PNone),
          (''event_type_category'', dict_get ev ''eventTypeCategory'' (PStr [])),
          (''status'', dict_get ev ''statusCode'' PNone),
          (''start_time'', start_time),
          (''end_time'', end_time),
          (''last_updated'', last_updated)]))))"

text \<open>
  One pass of the loop body (source lines 164 to 184). The first statement calls
  \<open>event.get\<close>, which only a dictionary has.
\<close>

definition classify_event :: "'dt pylib \<Rightarrow> 'dt pyval \<Rightarrow> 'dt locals \<Rightarrow> exn + 'dt locals" where
  "classify_event L event st =
     (case event of
        PDict ev \<Rightarrow>
          and_then (event_info L ev) (\<lambda>info.
            if dict_get ev ''eventTypeCategory'' (PStr [])
                 \<in> set [PStr ''issue'', PStr ''accountNotification'']
            then Inr (st\<lparr>critical_events := critical_events st @ [info],
                         issues := issues st @
                           [PStr (''Critical event: ''
                                  @ py_format L (dict_get ev ''eventTypeCode'' PNone)
                                  @ '' - '' @ py_format L (dict_get ev ''service'' PNone))],
                         severity := (if severity st \<noteq> ''critical'' then ''critical''
                                      else severity st)\<rparr>)
            else Inr (st\<lparr>warning_events := warning_events st @ [info],
                         severity := (if severity st = ''healthy'' then ''warning''
                                      else severity st)\<rparr>))
      | _ \<Rightarrow> Inl AttributeError)"

text \<open>The loop \<open>for event in health_events\<close>.\<close>

fun classify_events :: "'dt pylib \<Rightarrow> 'dt pyval list \<Rightarrow> 'dt locals \<Rightarrow> exn + 'dt locals" where
  "classify_events L [] st = Inr st"
| "classify_events L (event # events) st =
     and_then (classify_event L event st) (classify_events L events)"

text \<open>Determine overall status (source lines 187 to 192).\<close>

definition overall_status :: "string \<Rightarrow> string" where
  "overall_status sev =
     (if sev = ''critical'' then ''unhealthy''
      else if sev = ''warning'' then ''degraded''
      else ''healthy'')"

text \<open>The dictionary returned at the end (source lines 194 to 202).\<close>

definition verdict :: "'dt pyval \<Rightarrow> 'dt locals \<Rightarrow> 'dt pyval" where
  "verdict az_info st = PDict
     [(''status'', PStr (overall_status (severity st))),
      (''severity'', PStr (severity st)),
      (''message'', PStr (''AZ is '' @ overall_status (severity st))),
      (''issues'', PList (issues st)),
      (''critical_events'', PList (critical_events st)),
      (''warning_events'', PList (warning_events st)),
      (''az_info'', az_info)]"

text \<open>
  The whole function. \<open>az_info.get\<close> is its first call, so a value that is not a
  dictionary raises at once.
\<close>

definition analyze_health_status ::
    "'dt pylib \<Rightarrow> 'dt pyval \<Rightarrow> 'dt pyval \<Rightarrow> exn + 'dt pyval" where
  "analyze_health_status L az_info health_events =
     (case az_info of
        PDict az \<Rightarrow>
          if \<not> truthy (dict_get az ''exists'' PNone) then Inr not_found_verdict
          else
            and_then (check_messages L az (check_state L az initial_locals)) (\<lambda>st2.
            and_then (py_iter health_events) (\<lambda>events.
            and_then (classify_events L events st2) (\<lambda>st3.
              Inr (verdict az_info st3))))
      | _ \<Rightarrow> Inl AttributeError)"

text \<open>Reading a key of a returned dictionary.\<close>

definition field :: "string \<Rightarrow> 'dt pyval \<Rightarrow> 'dt pyval option" where
  "field k v = (case v of PDict d \<Rightarrow> map_of d k | _ \<Rightarrow> None)"

section \<open>The lookups and the handler\<close>

text \<open>
  What lies outside the repository is a parameter: the clock, \<open>str(e)\<close> of an
  exception, and the three calls into boto3.
  \<^item> \<open>new_ec2_client r\<close> is \<open>boto3.client('ec2', region_name=r)\<close>: it raises, or gives a
    client whose \<open>meta.region_name\<close> is the string returned;
  \<^item> \<open>describe_availability_zones r z\<close> is the answer of a client of region \<open>r\<close> to
    \<open>describe_availability_zones(ZoneNames=[z])\<close>;
  \<^item> \<open>describe_events_pages r z\<close> is what the paginator of \<open>describe_events\<close> yields
    for the filter built from region \<open>r\<close>, zone \<open>z\<close> and the last seven days: pages,
    up to the first exception if one is raised.
  Log output is not modelled.
\<close>

record 'dt env = "'dt pylib" +
  now :: "'dt"
  exn_str :: "exn \<Rightarrow> string"
  new_ec2_client :: "'dt pyval \<Rightarrow> exn + string"
  describe_availability_zones :: "string \<Rightarrow> 'dt pyval \<Rightarrow> exn + 'dt pyval"
  describe_events_pages :: "'dt pyval \<Rightarrow> 'dt pyval \<Rightarrow> (exn + 'dt pyval) list"

datatype 'dt api_call =
    NewEc2Client "'dt pyval"
  | DescribeAvailabilityZones string "'dt pyval"
  | DescribeEvents "'dt pyval" "'dt pyval"

text \<open>
  The state outside the handler: the region of the module-level \<open>ec2_client\<close>, which
  the handler rebinds, and the calls made into boto3 so far.
\<close>

record 'dt world =
  ec2_client_region :: string
  api_calls :: "'dt api_call list"

text \<open>\<open>v[0]\<close> and \<open>v[:-1]\<close>.\<close>

fun py_first :: "'dt pyval \<Rightarrow> exn + 'dt pyval" where
  "py_first (PList xs) = (case xs of [] \<Rightarrow> Inl IndexError | x # _ \<Rightarrow> Inr x)"
| "py_first (PStr s) = (case s of [] \<Rightarrow> Inl IndexError | c # _ \<Rightarrow> Inr (PStr [c]))"
| "py_first (PDict d) = Inl KeyError"
| "py_first v = Inl TypeError"

text \<open>
  Slicing a dictionary raises \<open>TypeError\<close> up to Python 3.11 and \<open>KeyError\<close> from 3.12
  on; the handler treats both alike.
\<close>

fun py_drop_last :: "'dt pyval \<Rightarrow> exn + 'dt pyval" where
  "py_drop_last (PStr s) = Inr (PStr (butlast s))"
| "py_drop_last (PList xs) = Inr (PList (butlast xs))"
| "py_drop_last v = Inl TypeError"

text \<open>The loop over the pages in \<open>get_az_health_events\<close> (source lines 55 to 59).\<close>

fun extend_pages :: "(exn + 'dt pyval) list \<Rightarrow> 'dt pyval list \<Rightarrow> exn + 'dt pyval list" where
  "extend_pages [] events = Inr events"
| "extend_pages (Inl e # pages) events = Inl e"
| "extend_pages (Inr page # pages) events =
     (case page of
        PDict p \<Rightarrow>
          and_then (py_iter (dict_get p ''events'' (PList []))) (\<lambda>more.
            extend_pages pages (events @ more))
      | _ \<Rightarrow> Inl AttributeError)"

definition get_az_health_events ::
    "('dt, 'x) env_scheme \<Rightarrow> 'dt pyval \<Rightarrow> 'dt pyval \<Rightarrow> exn + 'dt pyval" where
  "get_az_health_events E region availability_zone =
     (case extend_pages (describe_events_pages E region availability_zone) [] of
        Inr events \<Rightarrow> Inr (PList events)
      | Inl (ClientError error_code) \<Rightarrow>
          if error_code = ''SubscriptionRequiredException'' then Inr (PList [])
          else Inl (ClientError error_code)
      | Inl e \<Rightarrow> Inr (PList []))"

definition check_az_status ::
    "('dt, 'x) env_scheme \<Rightarrow> string \<Rightarrow> 'dt pyval \<Rightarrow> exn + 'dt pyval" where
  "check_az_status E client_region availability_zone =
     and_then (describe_availability_zones E client_region availability_zone) (\<lambda>response.
       case response of
         PDict r \<Rightarrow>
           if \<not> truthy (dict_get r ''AvailabilityZones'' PNone)
           then Inr (PDict
                  [(''exists'', PBool False),
                   (''status'', PStr ''unknown''),
                   (''state'', PStr ''unknown''),
                   (''messages'', PList [])])
           else
             and_then (dict_getitem r ''AvailabilityZones'') (\<lambda>zones.
             and_then (py_first zones) (\<lambda>az_info.
               case az_info of
                 PDict a \<Rightarrow> Inr (PDict
                   [(''exists'', PBool True),
                    (''zone_name'', dict_get a ''ZoneName'' PNone),
                    (''zone_id'', dict_get a ''ZoneId'' PNone),
                    (''state'', dict_get a ''State'' PNone),
                    (''region'', dict_get a ''RegionName'' PNone),
                    (''messages'', dict_get a ''Messages'' (PList [])),
                    (''network_border_group'', dict_get a ''NetworkBorderGroup'' PNone)])
               | _ \<Rightarrow> Inl AttributeError))
       | _ \<Rightarrow> Inl AttributeError)"

text \<open>
  What the handler returns, \<open>{'statusCode': c, 'body': json.dumps(d)}\<close>, is kept as the
  code \<open>c\<close> and the document \<open>d\<close> handed to \<open>json.dumps\<close> (called with
  \<open>default=str\<close> on the success path).
\<close>

record 'dt response =
  statusCode :: int
  body :: "'dt pyval"

text \<open>
  The \<open>try\<close> block of \<open>lambda_handler\<close> (source lines 219 to 266): its result or the
  exception it raises, and the state it leaves.
\<close>

definition handler_try ::
    "('dt, 'x) env_scheme \<Rightarrow> 'dt pyval \<Rightarrow> 'dt world \<Rightarrow> (exn + 'dt response) \<times> 'dt world" where
  "handler_try E event w =
     (case event of
        PDict ev \<Rightarrow>
          let availability_zone = dict_get ev ''availability_zone'' PNone in
          if \<not> truthy availability_zone
          then (Inr \<lparr>statusCode = 400,
                     body = PDict [(''error'',
                              PStr ''Missing required parameter: availability_zone'')]\<rparr>, w)
          else
            (case (if \<not> truthy (dict_get ev ''region'' PNone)
                   then py_drop_last availability_zone
                   else Inr (dict_get ev ''region'' PNone)) of
               Inl e \<Rightarrow> (Inl e, w)
             | Inr region \<Rightarrow>
                 (case (if PStr (ec2_client_region w) \<noteq> region
                        then (case new_ec2_client E region of
                                Inl e \<Rightarrow> (Inl e, w\<lparr>api_calls := api_calls w @ [NewEc2Client region]\<rparr>)
                              | Inr r \<Rightarrow> (Inr (), w\<lparr>ec2_client_region := r,
                                              api_calls := api_calls w @ [NewEc2Client region]\<rparr>))
                        else (Inr (), w)) of
                    (Inl e, w1) \<Rightarrow> (Inl e, w1)
                  | (Inr u, w1) \<Rightarrow>
                      let w2 = w1\<lparr>api_calls := api_calls w1 @
                                 [DescribeAvailabilityZones (ec2_client_region w1) availability_zone]\<rparr>
                      in (case check_az_status E (ec2_client_region w1) availability_zone of
                            Inl e \<Rightarrow> (Inl e, w2)
                          | Inr az_info \<Rightarrow>
                              let w3 = w2\<lparr>api_calls := api_calls w2 @
                                         [DescribeEvents region availability_zone]\<rparr>
                              in (and_then (get_az_health_events E region availability_zone)
                                    (\<lambda>health_events.
                                  and_then (analyze_health_status (pylib.truncate E) az_info health_events)
                                    (\<lambda>health_analysis.
                                    Inr \<lparr>statusCode = 200,
                                         body = PDict
                                           [(''availability_zone'', availability_zone),
                                            (''region'', region),
                                            (''timestamp'', PStr (isoformat E (now E))),
                                            (''health'', health_analysis)]\<rparr>)), w3))))
      | _ \<Rightarrow> (Inl AttributeError, w))"

text \<open>The handler with its two \<open>except\<close> clauses (source lines 268 to 285).\<close>

definition lambda_handler ::
    "('dt, 'x) env_scheme \<Rightarrow> 'dt pyval \<Rightarrow> 'c \<Rightarrow> 'dt world \<Rightarrow> 'dt response \<times> 'dt world" where
  "lambda_handler E event context w =
     (case handler_try E event w of
        (Inr r, w') \<Rightarrow> (r, w')
      | (Inl (ClientError code), w') \<Rightarrow>
          (\<lparr>statusCode = 500,
            body = PDict [(''error'', PStr ''AWS API error''),
                          (''message'', PStr (exn_str E (ClientError code)))]\<rparr>, w')
      | (Inl e, w') \<Rightarrow>
          (\<lparr>statusCode = 500,
            body = PDict [(''error'', PStr ''Internal error''),
                          (''message'', PStr (exn_str E e))]\<rparr>, w'))"

section \<open>Notions used to state the properties\<close>

text \<open>
  The order on severities, \<open>healthy < warning < critical\<close>, as a rank. The source
  compares severities for equality only.
\<close>

definition sev_rank :: "string \<Rightarrow> nat" where
  "sev_rank s = (if s = ''critical'' then 2 else if s = ''warning'' then 1 else 0)"

definition valid_severity :: "string \<Rightarrow> bool" where
  "valid_severity s \<longleftrightarrow> s = ''healthy'' \<or> s = ''warning'' \<or> s = ''critical''"

text \<open>The test of source line 176 on an event.\<close>

definition critical_category :: "'dt pyval \<Rightarrow> bool" where
  "critical_category event =
     (case event of
        PDict ev \<Rightarrow> dict_get ev ''eventTypeCategory'' (PStr [])
                      \<in> set [PStr ''issue'', PStr ''accountNotification'']
      | _ \<Rightarrow> False)"

text \<open>
  A timestamp field that lines 171 to 173 accept: a datetime, or a false value (the
  field is absent, \<open>None\<close>, empty).
\<close>

definition timestamp_ok :: "'dt pyval \<Rightarrow> bool" where
  "timestamp_ok v = (case v of PDatetime t \<Rightarrow> True | _ \<Rightarrow> \<not> truthy v)"

definition well_formed_event :: "'dt pyval \<Rightarrow> bool" where
  "well_formed_event event =
     (case event of
        PDict ev \<Rightarrow> timestamp_ok (dict_get ev ''startTime'' PNone)
                    \<and> timestamp_ok (dict_get ev ''endTime'' PNone)
                    \<and> timestamp_ok (dict_get ev ''lastUpdatedTime'' PNone)
      | _ \<Rightarrow> False)"


text \<open>
  What the loop does with a well-formed event, in closed form: its \<open>event_info\<close>, the
  issue of a critical event, and the locals after a whole list of events.
\<close>

definition timestamp_text :: "'dt pylib \<Rightarrow> 'dt pyval \<Rightarrow> 'dt pyval" where
  "timestamp_text L v = (case v of PDatetime t \<Rightarrow> PStr (isoformat L t) | _ \<Rightarrow> PNone)"

definition summary :: "'dt pylib \<Rightarrow> 'dt pyval \<Rightarrow> 'dt pyval" where
  "summary L event =
     (case event of
        PDict ev \<Rightarrow> PDict
          [(''arn'', dict_get ev ''arn'' PNone),
           (''service'', dict_get ev ''service'' PNone),
           (''event_type_code'', dict_get ev ''eventTypeCode'' PNone),
           (''event_type_category'', dict_get ev ''eventTypeCategory'' (PStr [])),
           (''status'', dict_get ev ''statusCode'' PNone),
           (''start_time'', timestamp_text L (dict_get ev ''startTime'' PNone)),
           (''end_time'', timestamp_text L (dict_get ev ''endTime'' PNone)),
           (''last_updated'', timestamp_text L (dict_get ev ''lastUpdatedTime'' PNone))]
      | _ \<Rightarrow> PNone)"

definition critical_issue :: "'dt pylib \<Rightarrow> 'dt pyval \<Rightarrow> 'dt pyval" where
  "critical_issue L event =
     (case event of
        PDict ev \<Rightarrow> PStr (''Critical event: '' @ py_format L (dict_get ev ''eventTypeCode'' PNone)
                          @ '' - '' @ py_format L (dict_get ev ''service'' PNone))
      | _ \<Rightarrow> PNone)"

definition severity_after :: "'dt pyval list \<Rightarrow> string \<Rightarrow> string" where
  "severity_after events sev =
     (if \<exists>event \<in> set events. critical_category event then ''critical''
      else if events \<noteq> [] \<and> sev = ''healthy'' then ''warning''
      else sev)"

definition after_events :: "'dt pylib \<Rightarrow> 'dt pyval list \<Rightarrow> 'dt locals \<Rightarrow> 'dt locals" where
  "after_events L events st =
     st\<lparr>critical_events := critical_events st @ map (summary L) (filter critical_category events),
        warning_events := warning_events st
                            @ map (summary L) (filter (\<lambda>event. \<not> critical_category event) events),
        issues := issues st @ map (critical_issue L) (filter critical_category events),
        severity := severity_after events (severity st)\<rparr>"

text \<open>The list under a key of a returned dictionary.\<close>

definition bucket :: "string \<Rightarrow> 'dt pyval \<Rightarrow> 'dt pyval list" where
  "bucket k v = (case field k v of Some (PList xs) \<Rightarrow> xs | _ \<Rightarrow> [])"

section \<open>Basic facts\<close>

lemma and_then_Inr [simp]: "and_then (Inr v) f = f v"
  by (simp add: and_then_def)

lemma and_then_Inl [simp]: "and_then (Inl e) f = Inl e"
  by (simp add: and_then_def)

lemma and_then_eq_Inr: "and_then r f = Inr y \<longleftrightarrow> (\<exists>v. r = Inr v \<and> f v = Inr y)"
  by (cases r) simp_all

lemma dict_getitem_truthy:
  "truthy (dict_get d k PNone) \<Longrightarrow> dict_getitem d k = Inr (dict_get d k PNone)"
  by (auto simp: dict_get_def dict_getitem_def split: option.splits)

lemma check_state_severity:
  "severity (check_state L az st) = severity st \<or> severity (check_state L az st) = ''critical''"
  by (simp add: check_state_def)

lemma check_messages_falsy:
  "\<not> truthy (dict_get az ''messages'' PNone) \<Longrightarrow> check_messages L az st = Inr st"
  by (simp add: check_messages_def)

lemma check_messages_truthy:
  "truthy (dict_get az ''messages'' PNone) \<Longrightarrow>
     check_messages L az st =
       and_then (py_iter (dict_get az ''messages'' PNone)) (\<lambda>msgs.
         Inr (st\<lparr>issues := issues st @ map (\<lambda>msg. PStr (''AZ message: '' @ py_format L msg)) msgs,
                 severity := (if severity st = ''healthy'' then ''warning'' else severity st)\<rparr>))"
  by (cases "py_iter (dict_get az ''messages'' PNone)")
     (simp_all add: check_messages_def dict_getitem_truthy Let_def)

lemma check_messages_severity:
  "check_messages L az st = Inr st' \<Longrightarrow>
     severity st' = (if truthy (dict_get az ''messages'' PNone) \<and> severity st = ''healthy'' then ''warning'' else severity st)"
  by (cases "truthy (dict_get az ''messages'' PNone)")
     (auto simp: check_messages_falsy check_messages_truthy and_then_eq_Inr)

lemma classify_event_severity:
  "classify_event L ev st = Inr st' \<Longrightarrow>
     severity st' = severity st \<or> severity st' = ''critical'' \<or> (severity st = ''healthy'' \<and> severity st' = ''warning'')"
  by (auto simp: classify_event_def and_then_eq_Inr split: pyval.splits if_splits)

lemma sev_rank_step:
  "s' = s \<or> s' = ''critical'' \<or> (s = ''healthy'' \<and> s' = ''warning'') \<Longrightarrow> sev_rank s \<le> sev_rank s'"
  by (auto simp: sev_rank_def)

lemma classify_events_rank:
  "classify_events L evs st = Inr st' \<Longrightarrow> sev_rank (severity st) \<le> sev_rank (severity st')"
proof (induction evs arbitrary: st)
  case Nil
  then show ?case by simp
next
  case (Cons ev evs)
  then obtain st1 where 1: "classify_event L ev st = Inr st1" and 2: "classify_events L evs st1 = Inr st'"
    by (auto simp: and_then_eq_Inr)
  from classify_event_severity[OF 1] have "sev_rank (severity st) \<le> sev_rank (severity st1)"
    by (rule sev_rank_step)
  with Cons.IH[OF 2] show ?case by simp
qed

lemma isoformat_or_none_ok:
  "timestamp_ok v \<Longrightarrow> isoformat_or_none L v = Inr (timestamp_text L v)"
  by (cases v) (simp_all add: timestamp_ok_def isoformat_or_none_def timestamp_text_def)

lemma isoformat_or_none_bad:
  "\<not> timestamp_ok v \<Longrightarrow> isoformat_or_none L v = Inl AttributeError"
  by (cases v) (simp_all add: timestamp_ok_def isoformat_or_none_def)

lemma event_info_ok:
  "well_formed_event (PDict ev) \<Longrightarrow> event_info L ev = Inr (summary L (PDict ev))"
  by (simp add: well_formed_event_def event_info_def summary_def isoformat_or_none_ok)

lemma isoformat_or_none_cases:
  "isoformat_or_none L v = Inl AttributeError \<or> isoformat_or_none L v = Inr (timestamp_text L v)"
  using isoformat_or_none_ok isoformat_or_none_bad by blast

lemma event_info_bad:
  "\<not> well_formed_event (PDict ev) \<Longrightarrow> event_info L ev = Inl AttributeError"
  using isoformat_or_none_cases[of L "dict_get ev ''startTime'' PNone"]
        isoformat_or_none_cases[of L "dict_get ev ''endTime'' PNone"]
        isoformat_or_none_cases[of L "dict_get ev ''lastUpdatedTime'' PNone"]
        isoformat_or_none_bad[of "dict_get ev ''startTime'' PNone" L]
        isoformat_or_none_bad[of "dict_get ev ''endTime'' PNone" L]
        isoformat_or_none_bad[of "dict_get ev ''lastUpdatedTime'' PNone" L]
  by (auto simp: well_formed_event_def event_info_def)

lemma classify_event_bad:
  "\<not> well_formed_event event \<Longrightarrow> classify_event L event st = Inl AttributeError"
  by (cases event) (auto simp: classify_event_def event_info_bad)

lemma classify_event_ok:
  assumes "well_formed_event event"
  shows "classify_event L event st =
       Inr (if critical_category event
            then st\<lparr>critical_events := critical_events st @ [summary L event],
                    issues := issues st @ [critical_issue L event],
                    severity := ''critical''\<rparr>
            else st\<lparr>warning_events := warning_events st @ [summary L event],
                    severity := (if severity st = ''healthy'' then ''warning'' else severity st)\<rparr>)"
proof (cases event)
  case (PDict ev)
  with assms have "event_info L ev = Inr (summary L event)"
    by (simp add: event_info_ok)
  with PDict show ?thesis
    by (simp add: classify_event_def critical_category_def critical_issue_def)
qed (use assms in \<open>simp_all add: well_formed_event_def\<close>)

lemma after_events_Nil: "after_events L [] st = st"
  by (simp add: after_events_def severity_after_def)

lemma after_events_Cons_critical:
  "critical_category event \<Longrightarrow>
     after_events L events
       (st\<lparr>critical_events := critical_events st @ [summary L event],
           issues := issues st @ [critical_issue L event],
           severity := ''critical''\<rparr>)
     = after_events L (event # events) st"
  by (simp add: after_events_def severity_after_def)

lemma after_events_Cons_other:
  "\<not> critical_category event \<Longrightarrow>
     after_events L events
       (st\<lparr>warning_events := warning_events st @ [summary L event],
           severity := (if severity st = ''healthy'' then ''warning'' else severity st)\<rparr>)
     = after_events L (event # events) st"
  by (simp add: after_events_def severity_after_def)

lemma classify_events_ok:
  "\<forall>event \<in> set events. well_formed_event event \<Longrightarrow>
     classify_events L events st = Inr (after_events L events st)"
proof (induction events arbitrary: st)
  case Nil
  show ?case by (simp add: after_events_Nil)
next
  case (Cons event events)
  then have wf: "well_formed_event event" and rest: "\<forall>e \<in> set events. well_formed_event e"
    by simp_all
  show ?case
  proof (cases "critical_category event")
    case True
    then show ?thesis
      using Cons.IH[OF rest] by (simp add: classify_event_ok[OF wf] after_events_Cons_critical)
  next
    case False
    then show ?thesis
      using Cons.IH[OF rest] by (simp add: classify_event_ok[OF wf] after_events_Cons_other)
  qed
qed

lemma classify_events_bad:
  "\<exists>event \<in> set events. \<not> well_formed_event event \<Longrightarrow>
     classify_events L events st = Inl AttributeError"
proof (induction events arbitrary: st)
  case Nil
  then show ?case by simp
next
  case (Cons event events)
  show ?case
  proof (cases "well_formed_event event")
    case False
    then show ?thesis by (simp add: classify_event_bad)
  next
    case True
    with Cons.prems have "\<exists>e \<in> set events. \<not> well_formed_event e" by auto
    from Cons.IH[OF this] show ?thesis by (simp add: classify_event_ok[OF True])
  qed
qed

lemma analyze_exists:
  "truthy (dict_get az ''exists'' PNone) \<Longrightarrow>
     analyze_health_status L (PDict az) health_events =
       and_then (check_messages L az (check_state L az initial_locals)) (\<lambda>st2.
       and_then (py_iter health_events) (\<lambda>events.
       and_then (classify_events L events st2) (\<lambda>st3.
         Inr (verdict (PDict az) st3))))"
  by (simp add: analyze_health_status_def)

lemma analyze_Inr:
  assumes "truthy (dict_get az ''exists'' PNone)"
    and "analyze_health_status L (PDict az) health_events = Inr v"
  obtains st2 events st3 where
    "check_messages L az (check_state L az initial_locals) = Inr st2"
    "py_iter health_events = Inr events"
    "classify_events L events st2 = Inr st3"
    "v = verdict (PDict az) st3"
  using assms by (auto simp: analyze_exists and_then_eq_Inr)

lemma classify_events_valid:
  "classify_events L events st = Inr st' \<Longrightarrow> valid_severity (severity st) \<Longrightarrow>
     valid_severity (severity st')"
proof (induction events arbitrary: st)
  case Nil
  then show ?case by simp
next
  case (Cons event events)
  from Cons.prems(1) obtain st1 where 1: "classify_event L event st = Inr st1"
    and 2: "classify_events L events st1 = Inr st'"
    by (auto simp: and_then_eq_Inr)
  from classify_event_severity[OF 1] Cons.prems(2) have "valid_severity (severity st1)"
    by (auto simp: valid_severity_def)
  with Cons.IH[OF 2] show ?case by simp
qed

lemma run_valid_severity:
  assumes "check_messages L az (check_state L az initial_locals) = Inr st2"
    and "classify_events L events st2 = Inr st3"
  shows "valid_severity (severity st3)"
proof -
  have "valid_severity (severity (check_state L az initial_locals))"
    using check_state_severity[of L az initial_locals]
    by (auto simp: valid_severity_def initial_locals_def)
  with check_messages_severity[OF assms(1)] have "valid_severity (severity st2)"
    by (auto simp: valid_severity_def split: if_splits)
  with classify_events_valid[OF assms(2)] show ?thesis by simp
qed

lemma field_verdict:
  "field ''status'' (verdict a st) = Some (PStr (overall_status (severity st)))"
  "field ''severity'' (verdict a st) = Some (PStr (severity st))"
  "field ''issues'' (verdict a st) = Some (PList (issues st))"
  "field ''critical_events'' (verdict a st) = Some (PList (critical_events st))"
  "field ''warning_events'' (verdict a st) = Some (PList (warning_events st))"
  by (simp_all add: field_def verdict_def)

lemmas run_simps =
  analyze_health_status_def not_found_verdict_def dict_get_def dict_getitem_def
  check_state_def check_messages_def initial_locals_def verdict_def overall_status_def
  classify_event_def event_info_def isoformat_or_none_def

lemma bucket_verdict:
  "bucket ''critical_events'' (verdict a st) = critical_events st"
  "bucket ''warning_events'' (verdict a st) = warning_events st"
  by (simp_all add: bucket_def field_verdict)

lemma severity_after_perm:
  "mset events = mset events' \<Longrightarrow> severity_after events sev = severity_after events' sev"
proof -
  assume p: "mset events = mset events'"
  then have "set events = set events'" by (rule mset_eq_setD)
  moreover from p have "events = [] \<longleftrightarrow> events' = []"
    by (metis mset_zero_iff)
  ultimately show ?thesis by (simp add: severity_after_def)
qed

lemma analyze_list_ok:
  assumes "truthy (dict_get az ''exists'' PNone)"
    and "check_messages L az (check_state L az initial_locals) = Inr st2"
    and "\<forall>event \<in> set events. well_formed_event event"
  shows "analyze_health_status L (PDict az) (PList events)
           = Inr (verdict (PDict az) (after_events L events st2))"
  using assms by (simp add: analyze_exists classify_events_ok)

lemma analyze_list_bad:
  assumes "truthy (dict_get az ''exists'' PNone)"
    and "check_messages L az (check_state L az initial_locals) = Inr st2"
    and "\<exists>event \<in> set events. \<not> well_formed_event event"
  shows "analyze_health_status L (PDict az) (PList events) = Inl AttributeError"
  using assms by (simp add: analyze_exists classify_events_bad)

lemma analyze_messages_bad:
  assumes "truthy (dict_get az ''exists'' PNone)"
    and "check_messages L az (check_state L az initial_locals) = Inl e"
  shows "analyze_health_status L (PDict az) health_events = Inl e"
  using assms by (simp add: analyze_exists)



lemma analyze_list_Inr:
  assumes "truthy (dict_get az ''exists'' PNone)"
    and "analyze_health_status L (PDict az) (PList events) = Inr v"
  shows "(\<forall>event \<in> set events. well_formed_event event)
         \<and> bucket ''critical_events'' v = map (summary L) (filter critical_category events)
         \<and> bucket ''warning_events'' v
              = map (summary L) (filter (\<lambda>event. \<not> critical_category event) events)"
proof -
  from assms obtain st2 evs st3 where
    m: "check_messages L az (check_state L az initial_locals) = Inr st2"
    and i: "py_iter (PList events) = Inr evs"
    and l: "classify_events L evs st2 = Inr st3"
    and v: "v = verdict (PDict az) st3"
    by (rule analyze_Inr)
  from i have evs: "evs = events" by simp
  have wf: "\<forall>event \<in> set events. well_formed_event event"
  proof (rule ccontr)
    assume "\<not> (\<forall>event \<in> set events. well_formed_event event)"
    then have "\<exists>event \<in> set events. \<not> well_formed_event event" by simp
    from classify_events_bad[OF this] l evs show False by simp
  qed
  have init: "critical_events st2 = []" "warning_events st2 = []"
    using m
    by (cases "truthy (dict_get az ''messages'' PNone)";
        auto simp: check_messages_falsy check_messages_truthy and_then_eq_Inr
          check_state_def initial_locals_def)+
  from l evs classify_events_ok[OF wf] have "st3 = after_events L events st2" by simp
  with wf init show ?thesis
    by (simp add: v bucket_verdict after_events_def)
qed

lemma summary_not_critical:
  assumes "\<not> critical_category (PDict ev)"
  shows "summary L (PDict ev) \<notin> set (map (summary L) (filter critical_category events))"
proof
  assume "summary L (PDict ev) \<in> set (map (summary L) (filter critical_category events))"
  then obtain e where e: "e \<in> set events" "critical_category e" "summary L e = summary L (PDict ev)"
    by auto
  from e(2) obtain ev' where ev': "e = PDict ev'"
    by (cases e) (simp_all add: critical_category_def)
  from e(3) ev' have "dict_get ev' ''eventTypeCategory'' (PStr []) = dict_get ev ''eventTypeCategory'' (PStr [])"
    by (simp add: summary_def)
  with e(2) ev' assms show False
    by (simp add: critical_category_def)
qed

lemma analyze_list_Inr_verdict:
  assumes "truthy (dict_get az ''exists'' PNone)"
    and "analyze_health_status L (PDict az) (PList events) = Inr v"
  obtains st2 where
    "check_messages L az (check_state L az initial_locals) = Inr st2"
    "\<forall>event \<in> set events. well_formed_event event"
    "v = verdict (PDict az) (after_events L events st2)"
proof -
  from assms obtain st2 evs st3 where
    m: "check_messages L az (check_state L az initial_locals) = Inr st2"
    and i: "py_iter (PList events) = Inr evs"
    and l: "classify_events L evs st2 = Inr st3"
    and v: "v = verdict (PDict az) st3"
    by (rule analyze_Inr)
  from i have evs: "evs = events" by simp
  have wf: "\<forall>event \<in> set events. well_formed_event event"
    using analyze_list_Inr[OF assms] by simp
  from l evs classify_events_ok[OF wf] have "st3 = after_events L events st2" by simp
  with m wf v that show ?thesis by simp
qed

section \<open>The existence gate\<close>



section \<open>Fixed scenarios\<close>

text \<open>
  Claim C7. An existing zone in state \<open>available\<close> with no messages, classified with
  an empty list of events, is healthy: status \<open>healthy\<close>, severity \<open>healthy\<close>, no
  issues, both buckets empty.
\<close>

theorem empty_input_baseline:
  assumes "truthy (dict_get az ''exists'' PNone)"
    and "dict_get az ''state'' PNone = PStr ''available''"
    and "\<not> truthy (dict_get az ''messages'' PNone)"
  shows "analyze_health_status L (PDict az) (PList []) = Inr (PDict
           [(''status'', PStr ''healthy''),
            (''severity'', PStr ''healthy''),
            (''message'', PStr ''AZ is healthy''),
            (''issues'', PList []),
            (''critical_events'', PList []),
            (''warning_events'', PList []),
            (''az_info'', PDict az)])"
  using assms
  by (simp add: analyze_exists check_state_def check_messages_falsy initial_locals_def
        verdict_def overall_status_def)

theorem empty_input_baseline_witness:
  "truthy (dict_get [(''exists'', PBool True), (''state'', PStr ''available''),
                     (''messages'', PList [])] ''exists'' (PNone :: unit pyval))
   \<and> dict_get [(''exists'', PBool True), (''state'', PStr ''available''),
                (''messages'', PList [])] ''state'' (PNone :: unit pyval) = PStr ''available''
   \<and> \<not> truthy (dict_get [(''exists'', PBool True), (''state'', PStr ''available''),
                (''messages'', PList [])] ''messages'' (PNone :: unit pyval))
   \<and> analyze_health_status \<lparr>isoformat = (\<lambda>t::unit. ''T''), str_other = (\<lambda>v. ''?'')\<rparr>
        (PDict [(''exists'', PBool True), (''state'', PStr ''available''),
                (''messages'', PList [])])
        (PList [])
      = Inr (PDict
           [(''status'', PStr ''healthy''),
            (''severity'', PStr ''healthy''),
            (''message'', PStr ''AZ is healthy''),
            (''issues'', PList []),
            (''critical_events'', PList []),
            (''warning_events'', PList []),
            (''az_info'', PDict [(''exists'', PBool True), (''state'', PStr ''available''),
                                 (''messages'', PList [])])])"
  using empty_input_baseline[of "[(''exists'', PBool True), (''state'', PStr ''available''),
                     (''messages'', PList [])] :: unit pydict"
          "\<lparr>isoformat = (\<lambda>t::unit. ''T''), str_other = (\<lambda>v. ''?'')\<rparr>"]
  by (simp add: dict_get_def)

section \<open>Severity and status\<close>

text \<open>
  Claim C2. With the order \<open>healthy < warning < critical\<close>, no step of the classifier
  lowers the severity: not the state check, not the message check, not one pass of the
  event loop, not the whole loop, from whatever locals the step starts. In a run on an
  existing zone that returns, the severity goes up or stays from its initial value
  \<open>healthy\<close> through the state check, the message check and the loop, and the last
  value is the one returned.
\<close>

theorem severity_never_decreases:
  "sev_rank ''healthy'' < sev_rank ''warning'' \<and> sev_rank ''warning'' < sev_rank ''critical''
   \<and> sev_rank (severity st) \<le> sev_rank (severity (check_state (L :: 'dt pylib) az st))
   \<and> (\<forall>st'. check_messages L az st = Inr st' \<longrightarrow>
          sev_rank (severity st) \<le> sev_rank (severity st'))
   \<and> (\<forall>st'. classify_event L event st = Inr st' \<longrightarrow>
          sev_rank (severity st) \<le> sev_rank (severity st'))
   \<and> (\<forall>st'. classify_events L events st = Inr st' \<longrightarrow>
          sev_rank (severity st) \<le> sev_rank (severity st'))
   \<and> (\<forall>v. truthy (dict_get az ''exists'' PNone)
            \<and> analyze_health_status L (PDict az) health_events = Inr v \<longrightarrow>
          (\<exists>st2 evs st3.
             check_messages L az (check_state L az initial_locals) = Inr st2
             \<and> py_iter health_events = Inr evs
             \<and> classify_events L evs st2 = Inr st3
             \<and> field ''severity'' v = Some (PStr (severity st3))
             \<and> sev_rank (severity (initial_locals :: 'dt locals))
                  \<le> sev_rank (severity (check_state L az initial_locals))
             \<and> sev_rank (severity (check_state L az initial_locals)) \<le> sev_rank (severity st2)
             \<and> sev_rank (severity st2) \<le> sev_rank (severity st3)))"
proof -
  have order: "sev_rank ''healthy'' < sev_rank ''warning'' \<and> sev_rank ''warning'' < sev_rank ''critical''"
    by (simp add: sev_rank_def)
  have state: "sev_rank (severity s) \<le> sev_rank (severity (check_state L az s))" for s
    using check_state_severity[of L az s] by (auto intro: sev_rank_step)
  have msgs: "sev_rank (severity s) \<le> sev_rank (severity s')"
    if "check_messages L az s = Inr s'" for s s'
    using check_messages_severity[OF that] by (auto intro: sev_rank_step)
  have one: "sev_rank (severity st) \<le> sev_rank (severity s')"
    if "classify_event L event st = Inr s'" for s'
    using classify_event_severity[OF that] by (rule sev_rank_step)
  have run: "\<exists>st2 evs st3.
             check_messages L az (check_state L az initial_locals) = Inr st2
             \<and> py_iter health_events = Inr evs
             \<and> classify_events L evs st2 = Inr st3
             \<and> field ''severity'' v = Some (PStr (severity st3))
             \<and> sev_rank (severity (initial_locals :: 'dt locals))
                  \<le> sev_rank (severity (check_state L az initial_locals))
             \<and> sev_rank (severity (check_state L az initial_locals)) \<le> sev_rank (severity st2)
             \<and> sev_rank (severity st2) \<le> sev_rank (severity st3)"
    if e: "truthy (dict_get az ''exists'' PNone)"
      and r: "analyze_health_status L (PDict az) health_events = Inr v" for v
  proof -
    from e r obtain st2 evs st3 where
      m: "check_messages L az (check_state L az initial_locals) = Inr st2"
      and i: "py_iter health_events = Inr evs"
      and l: "classify_events L evs st2 = Inr st3"
      and v: "v = verdict (PDict az) st3"
      by (rule analyze_Inr)
    show ?thesis
      using m i l state[of initial_locals] msgs[OF m] classify_events_rank[OF l]
      by (auto simp: v field_verdict)
  qed
  show ?thesis
    using order state[of st] msgs one classify_events_rank run by blast
qed

theorem severity_never_decreases_witness:
  "(\<exists>st'. check_messages \<lparr>isoformat = (\<lambda>t::unit. ''T''), str_other = (\<lambda>v. ''?'')\<rparr>
            [(''exists'', PBool True), (''state'', PStr ''impaired''),
             (''messages'', PList [PStr ''scheduled maintenance''])] initial_locals = Inr st'
         \<and> sev_rank (severity (initial_locals :: unit locals)) \<le> sev_rank (severity st'))
   \<and> (\<exists>st'. classify_event \<lparr>isoformat = (\<lambda>t::unit. ''T''), str_other = (\<lambda>v. ''?'')\<rparr>
            (PDict [(''eventTypeCategory'', PStr ''scheduledChange'')]) initial_locals = Inr st'
         \<and> sev_rank (severity (initial_locals :: unit locals)) \<le> sev_rank (severity st'))
   \<and> (\<exists>st'. classify_events \<lparr>isoformat = (\<lambda>t::unit. ''T''), str_other = (\<lambda>v. ''?'')\<rparr>
            [PDict [(''eventTypeCategory'', PStr ''scheduledChange'')],
             PDict [(''eventTypeCategory'', PStr ''issue'')]] initial_locals = Inr st'
         \<and> sev_rank (severity (initial_locals :: unit locals)) \<le> sev_rank (severity st'))
   \<and> truthy (dict_get [(''exists'', PBool True), (''state'', PStr ''impaired''),
                        (''messages'', PList [PStr ''scheduled maintenance''])]
                ''exists'' (PNone :: unit pyval))
   \<and> (\<exists>v. analyze_health_status \<lparr>isoformat = (\<lambda>t::unit. ''T''), str_other = (\<lambda>v. ''?'')\<rparr>
            (PDict [(''exists'', PBool True), (''state'', PStr ''impaired''),
                    (''messages'', PList [PStr ''scheduled maintenance''])])
            (PList [PDict [(''eventTypeCategory'', PStr ''scheduledChange'')],
                    PDict [(''eventTypeCategory'', PStr ''issue'')]]) = Inr v
         \<and> field ''severity'' v = Some (PStr ''critical''))"
proof -
  let ?L = "\<lparr>isoformat = (\<lambda>t::unit. ''T''), str_other = (\<lambda>v. ''?'')\<rparr>"
  let ?az = "[(''exists'', PBool True), (''state'', PStr ''impaired''),
              (''messages'', PList [PStr ''scheduled maintenance''])] :: unit pydict"
  let ?e1 = "PDict [(''eventTypeCategory'', PStr ''scheduledChange'')] :: unit pyval"
  let ?e2 = "PDict [(''eventTypeCategory'', PStr ''issue'')] :: unit pyval"
  note mono = severity_never_decreases[where L = ?L and az = ?az and st = initial_locals
      and event = ?e1 and events = "[?e1, ?e2]" and health_events = "PList [?e1, ?e2]"]
  obtain s1 where m: "check_messages ?L ?az initial_locals = Inr s1"
    by (simp add: run_simps)
  obtain s2 where c: "classify_event ?L ?e1 initial_locals = Inr s2"
    by (simp add: run_simps)
  obtain s3 where l: "classify_events ?L [?e1, ?e2] initial_locals = Inr s3"
    by (simp add: run_simps)
  have e: "truthy (dict_get ?az ''exists'' PNone)"
    by (simp add: dict_get_def)
  have r: "analyze_health_status ?L (PDict ?az) (PList [?e1, ?e2]) = Inr (PDict
     [(''status'', PStr ''unhealthy''),
      (''severity'', PStr ''critical''),
      (''message'', PStr ''AZ is unhealthy''),
      (''issues'', PList [PStr ''AZ state is impaired (expected: available)'',
                          PStr ''AZ message: scheduled maintenance'',
                          PStr ''Critical event: None - None'']),
      (''critical_events'', PList [PDict
         [(''arn'', PNone), (''service'', PNone), (''event_type_code'', PNone),
          (''event_type_category'', PStr ''issue''), (''status'', PNone),
          (''start_time'', PNone), (''end_time'', PNone), (''last_updated'', PNone)]]),
      (''warning_events'', PList [PDict
         [(''arn'', PNone), (''service'', PNone), (''event_type_code'', PNone),
          (''event_type_category'', PStr ''scheduledChange''), (''status'', PNone),
          (''start_time'', PNone), (''end_time'', PNone), (''last_updated'', PNone)]]),
      (''az_info'', PDict ?az)])"
    by (simp add: run_simps)
  have f: "field ''severity'' (PDict
     [(''status'', PStr ''unhealthy''),
      (''severity'', PStr ''critical''),
      (''message'', PStr ''AZ is unhealthy''),
      (''issues'', PList [PStr ''AZ state is impaired (expected: available)'',
                          PStr ''AZ message: scheduled maintenance'',
                          PStr ''Critical event: None - None'']),
      (''critical_events'', PList [PDict
         [(''arn'', PNone), (''service'', PNone), (''event_type_code'', PNone),
          (''event_type_category'', PStr ''issue''), (''status'', PNone),
          (''start_time'', PNone), (''end_time'', PNone), (''last_updated'', PNone)]]),
      (''warning_events'', PList [PDict
         [(''arn'', PNone), (''service'', PNone), (''event_type_code'', PNone),
          (''event_type_category'', PStr ''scheduledChange''), (''status'', PNone),
          (''start_time'', PNone), (''end_time'', PNone), (''last_updated'', PNone)]]),
      (''az_info'', PDict ?az)]) = Some (PStr ''critical'')"
    by (simp add: field_def)
  from mono m c l e r f show ?thesis
    by blast
qed

text \<open>
  Claim C6. When the zone exists and the classifier returns, the severity it returns is
  one of \<open>critical\<close>, \<open>warning\<close>, \<open>healthy\<close>, and the status is \<open>unhealthy\<close>,
  \<open>degraded\<close>, \<open>healthy\<close> accordingly; it is never \<open>error\<close>, which only the existence
  gate returns.
\<close>

theorem status_from_severity:
  assumes "truthy (dict_get az ''exists'' PNone)"
    and "analyze_health_status L (PDict az) health_events = Inr v"
  shows "\<exists>sev status.
           field ''severity'' v = Some (PStr sev) \<and> field ''status'' v = Some (PStr status)
           \<and> (sev = ''critical'' \<or> sev = ''warning'' \<or> sev = ''healthy'')
           \<and> (sev = ''critical'' \<longrightarrow> status = ''unhealthy'')
           \<and> (sev = ''warning'' \<longrightarrow> status = ''degraded'')
           \<and> (sev = ''healthy'' \<longrightarrow> status = ''healthy'')
           \<and> status \<noteq> ''error''"
proof -
  from assms obtain st2 events st3 where
    m: "check_messages L az (check_state L az initial_locals) = Inr st2"
    and l: "classify_events L events st2 = Inr st3"
    and v: "v = verdict (PDict az) st3"
    by (rule analyze_Inr)
  have "valid_severity (severity st3)"
    using m l by (rule run_valid_severity)
  then show ?thesis
    unfolding v field_verdict
    by (auto simp: valid_severity_def overall_status_def)
qed

theorem status_from_severity_witness:
  "truthy (dict_get [(''exists'', PBool True), (''state'', PStr ''available'')]
             ''exists'' (PNone :: unit pyval))
   \<and> (\<exists>v. analyze_health_status \<lparr>isoformat = (\<lambda>t::unit. ''T''), str_other = (\<lambda>v. ''?'')\<rparr>
            (PDict [(''exists'', PBool True), (''state'', PStr ''available'')])
            (PList [PDict [(''eventTypeCategory'', PStr ''scheduledChange'')]]) = Inr v
         \<and> field ''severity'' v = Some (PStr ''warning'')
         \<and> field ''status'' v = Some (PStr ''degraded''))"
proof -
  let ?L = "\<lparr>isoformat = (\<lambda>t::unit. ''T''), str_other = (\<lambda>v. ''?'')\<rparr>"
  let ?az = "[(''exists'', PBool True), (''state'', PStr ''available'')] :: unit pydict"
  let ?v = "PDict
     [(''status'', PStr ''degraded''),
      (''severity'', PStr ''warning''),
      (''message'', PStr ''AZ is degraded''),
      (''issues'', PList []),
      (''critical_events'', PList []),
      (''warning_events'', PList [PDict
         [(''arn'', PNone), (''service'', PNone), (''event_type_code'', PNone),
          (''event_type_category'', PStr ''scheduledChange''), (''status'', PNone),
          (''start_time'', PNone), (''end_time'', PNone), (''last_updated'', PNone)]]),
      (''az_info'', PDict ?az)] :: unit pyval"
  have e: "truthy (dict_get ?az ''exists'' PNone)"
    by (simp add: dict_get_def)
  have r: "analyze_health_status ?L (PDict ?az)
             (PList [PDict [(''eventTypeCategory'', PStr ''scheduledChange'')]]) = Inr ?v"
    by (simp add: run_simps)
  have f: "field ''severity'' ?v = Some (PStr ''warning'')"
    by (simp add: field_def)
  from status_from_severity[OF e r] f have "field ''status'' ?v = Some (PStr ''degraded'')"
    by auto
  with e r f show ?thesis
    by blast
qed

section \<open>Events\<close>

text \<open>
  Claim C3. For an existing zone and two lists of events that are permutations of each
  other, the classifier returns for both or raises the same exception for both; when it
  returns, the two results have the same critical bucket and the same warning bucket
  (as sets, and as multisets), the same severity and the same status. Each bucket is
  the list of the \<open>event_info\<close>s of the input events of its category, in input order:
  every event is in exactly one bucket, once, and which one depends on that event
  alone.
\<close>

theorem event_order_independence:
  assumes "truthy (dict_get az ''exists'' PNone)"
    and "mset events = mset events'"
  shows "(\<forall>v. analyze_health_status L (PDict az) (PList events) = Inr v \<longrightarrow>
            (\<exists>v'. analyze_health_status L (PDict az) (PList events') = Inr v'
               \<and> set (bucket ''critical_events'' v) = set (bucket ''critical_events'' v')
               \<and> set (bucket ''warning_events'' v) = set (bucket ''warning_events'' v')
               \<and> mset (bucket ''critical_events'' v) = mset (bucket ''critical_events'' v')
               \<and> mset (bucket ''warning_events'' v) = mset (bucket ''warning_events'' v')
               \<and> field ''severity'' v = field ''severity'' v'
               \<and> field ''status'' v = field ''status'' v')
            \<and> bucket ''critical_events'' v = map (summary L) (filter critical_category events)
            \<and> bucket ''warning_events'' v
                 = map (summary L) (filter (\<lambda>event. \<not> critical_category event) events))
         \<and> (\<forall>e. analyze_health_status L (PDict az) (PList events) = Inl e \<longrightarrow>
                analyze_health_status L (PDict az) (PList events') = Inl e)"
proof (cases "check_messages L az (check_state L az initial_locals)")
  case (Inl e)
  then show ?thesis
    using assms(1) by (simp add: analyze_messages_bad)
next
  case (Inr st2)
  have sets: "set events = set events'"
    using assms(2) by (rule mset_eq_setD)
  have init: "critical_events st2 = []" "warning_events st2 = []"
    using Inr
    by (cases "truthy (dict_get az ''messages'' PNone)";
        auto simp: check_messages_falsy check_messages_truthy and_then_eq_Inr
          check_state_def initial_locals_def)+
  show ?thesis
  proof (cases "\<forall>event \<in> set events. well_formed_event event")
    case True
    then have True': "\<forall>event \<in> set events'. well_formed_event event"
      using sets by simp
    have "mset (map (summary L) (filter P events)) = mset (map (summary L) (filter P events'))" for P
      using assms(2) by (metis mset_filter mset_map)
    then show ?thesis
      using severity_after_perm[OF assms(2)] init
      by (simp add: analyze_list_ok[OF assms(1) Inr True] analyze_list_ok[OF assms(1) Inr True']
            bucket_verdict field_verdict after_events_def sets)
  next
    case False
    then have bad: "\<exists>event \<in> set events. \<not> well_formed_event event" by simp
    then have bad': "\<exists>event \<in> set events'. \<not> well_formed_event event"
      using sets by simp
    show ?thesis
      by (simp add: analyze_list_bad[OF assms(1) Inr bad] analyze_list_bad[OF assms(1) Inr bad'])
  qed
qed


theorem event_order_independence_witness:
  "truthy (dict_get [(''exists'', PBool True), (''state'', PStr ''available'')]
             ''exists'' (PNone :: unit pyval))
   \<and> mset [PDict [(''eventTypeCategory'', PStr ''scheduledChange'')],
            PDict [(''eventTypeCategory'', PStr ''issue'')] :: unit pyval]
     = mset [PDict [(''eventTypeCategory'', PStr ''issue'')],
             PDict [(''eventTypeCategory'', PStr ''scheduledChange'')]]
   \<and> (\<exists>v v'.
         analyze_health_status \<lparr>isoformat = (\<lambda>t::unit. ''T''), str_other = (\<lambda>v. ''?'')\<rparr>
           (PDict [(''exists'', PBool True), (''state'', PStr ''available'')])
           (PList [PDict [(''eventTypeCategory'', PStr ''scheduledChange'')],
                   PDict [(''eventTypeCategory'', PStr ''issue'')]]) = Inr v
         \<and> analyze_health_status \<lparr>isoformat = (\<lambda>t::unit. ''T''), str_other = (\<lambda>v. ''?'')\<rparr>
           (PDict [(''exists'', PBool True), (''state'', PStr ''available'')])
           (PList [PDict [(''eventTypeCategory'', PStr ''issue'')],
                   PDict [(''eventTypeCategory'', PStr ''scheduledChange'')]]) = Inr v'
         \<and> set (bucket ''critical_events'' v) = set (bucket ''critical_events'' v')
         \<and> set (bucket ''warning_events'' v) = set (bucket ''warning_events'' v')
         \<and> field ''severity'' v = field ''severity'' v')"
proof -
  let ?L = "\<lparr>isoformat = (\<lambda>t::unit. ''T''), str_other = (\<lambda>v. ''?'')\<rparr>"
  let ?az = "[(''exists'', PBool True), (''state'', PStr ''available'')] :: unit pydict"
  let ?e1 = "PDict [(''eventTypeCategory'', PStr ''scheduledChange'')] :: unit pyval"
  let ?e2 = "PDict [(''eventTypeCategory'', PStr ''issue'')] :: unit pyval"
  have e: "truthy (dict_get ?az ''exists'' PNone)"
    by (simp add: dict_get_def)
  have p: "mset [?e1, ?e2] = mset [?e2, ?e1]"
    by simp
  obtain v where r: "analyze_health_status ?L (PDict ?az) (PList [?e1, ?e2]) = Inr v"
    by (simp add: run_simps)
  from event_order_independence[OF e p, of ?L] r e p show ?thesis
    by blast
qed

text \<open>
  Claim C10. An event whose \<open>eventTypeCategory\<close> is absent, or is anything but
  \<open>issue\<close> and \<open>accountNotification\<close>, goes to the warning bucket, adds no issue,
  leaves the critical bucket alone, and raises the severity to \<open>warning\<close> exactly when
  it was \<open>healthy\<close>. In every run on an existing zone that returns, the event's
  \<open>event_info\<close> is in the warning bucket of the result and not in the critical one.
  (The event's timestamps are datetimes or absent.)
\<close>

theorem informational_event_rule:
  assumes "well_formed_event (PDict ev)"
    and "map_of ev ''eventTypeCategory'' = None
         \<or> (dict_get ev ''eventTypeCategory'' (PStr []) \<noteq> PStr ''issue''
            \<and> dict_get ev ''eventTypeCategory'' (PStr []) \<noteq> PStr ''accountNotification'')"
  shows "\<exists>info. event_info L ev = Inr info
           \<and> classify_event L (PDict ev) st =
               Inr (st\<lparr>warning_events := warning_events st @ [info],
                       severity := (if severity st = ''healthy'' then ''warning''
                                    else severity st)\<rparr>)
           \<and> (\<forall>st'. classify_event L (PDict ev) st = Inr st' \<longrightarrow>
                 warning_events st' = warning_events st @ [info]
                 \<and> critical_events st' = critical_events st
                 \<and> issues st' = issues st
                 \<and> (severity st = ''healthy'' \<longrightarrow> severity st' = ''warning'')
                 \<and> (severity st \<noteq> ''healthy'' \<longrightarrow> severity st' = severity st))
           \<and> (\<forall>az events v.
                 truthy (dict_get az ''exists'' PNone)
                 \<and> analyze_health_status L (PDict az) (PList events) = Inr v
                 \<and> PDict ev \<in> set events \<longrightarrow>
                 info \<in> set (bucket ''warning_events'' v)
                 \<and> info \<notin> set (bucket ''critical_events'' v))"
proof -
  have nc: "\<not> critical_category (PDict ev)"
    using assms(2) by (auto simp: critical_category_def dict_get_def)
  have run: "summary L (PDict ev) \<in> set (bucket ''warning_events'' v)
             \<and> summary L (PDict ev) \<notin> set (bucket ''critical_events'' v)"
    if "truthy (dict_get az ''exists'' PNone)"
      and "analyze_health_status L (PDict az) (PList events) = Inr v"
      and "PDict ev \<in> set events" for az events v
    using analyze_list_Inr[OF that(1,2)] that(3) nc summary_not_critical[OF nc]
    by auto
  have step: "classify_event L (PDict ev) st =
               Inr (st\<lparr>warning_events := warning_events st @ [summary L (PDict ev)],
                       severity := (if severity st = ''healthy'' then ''warning''
                                    else severity st)\<rparr>)"
    using nc by (simp add: classify_event_ok[OF assms(1)])
  show ?thesis
  proof (intro exI[of _ "summary L (PDict ev)"] conjI allI impI)
    show "event_info L ev = Inr (summary L (PDict ev))"
      by (rule event_info_ok[OF assms(1)])
  qed (use step run in auto)
qed

theorem informational_event_rule_witness:
  "well_formed_event (PDict [(''arn'', PStr ''arn:aws:health:us-east-1::event/EC2/1''),
                             (''startTime'', PDatetime ())])
   \<and> map_of [(''arn'', PStr ''arn:aws:health:us-east-1::event/EC2/1''),
             (''startTime'', PDatetime ())] ''eventTypeCategory'' = None
   \<and> classify_event \<lparr>isoformat = (\<lambda>t::unit. ''T''), str_other = (\<lambda>v. ''?'')\<rparr>
        (PDict [(''arn'', PStr ''arn:aws:health:us-east-1::event/EC2/1''),
                (''startTime'', PDatetime ())])
        \<lparr>issues = [], severity = ''healthy'', critical_events = [], warning_events = []\<rparr>
      = Inr \<lparr>issues = [], severity = ''warning'', critical_events = [],
             warning_events = [PDict
               [(''arn'', PStr ''arn:aws:health:us-east-1::event/EC2/1''), (''service'', PNone),
                (''event_type_code'', PNone), (''event_type_category'', PStr []),
                (''status'', PNone), (''start_time'', PStr ''T''), (''end_time'', PNone),
                (''last_updated'', PNone)]]\<rparr>
   \<and> truthy (dict_get [(''exists'', PBool True), (''state'', PStr ''available'')]
               ''exists'' (PNone :: unit pyval))
   \<and> (\<exists>v. analyze_health_status \<lparr>isoformat = (\<lambda>t::unit. ''T''), str_other = (\<lambda>v. ''?'')\<rparr>
          (PDict [(''exists'', PBool True), (''state'', PStr ''available'')])
          (PList [PDict [(''eventTypeCategory'', PStr ''issue'')],
                  PDict [(''arn'', PStr ''arn:aws:health:us-east-1::event/EC2/1''),
                         (''startTime'', PDatetime ())]]) = Inr v
        \<and> PDict [(''arn'', PStr ''arn:aws:health:us-east-1::event/EC2/1''), (''service'', PNone),
                  (''event_type_code'', PNone), (''event_type_category'', PStr []),
                  (''status'', PNone), (''start_time'', PStr ''T''), (''end_time'', PNone),
                  (''last_updated'', PNone)] \<in> set (bucket ''warning_events'' v)
        \<and> PDict [(''arn'', PStr ''arn:aws:health:us-east-1::event/EC2/1''), (''service'', PNone),
                  (''event_type_code'', PNone), (''event_type_category'', PStr []),
                  (''status'', PNone), (''start_time'', PStr ''T''), (''end_time'', PNone),
                  (''last_updated'', PNone)] \<notin> set (bucket ''critical_events'' v))"
proof -
  let ?L = "\<lparr>isoformat = (\<lambda>t::unit. ''T''), str_other = (\<lambda>v. ''?'')\<rparr>"
  let ?ev = "[(''arn'', PStr ''arn:aws:health:us-east-1::event/EC2/1''),
              (''startTime'', PDatetime ())] :: unit pydict"
  let ?st = "\<lparr>issues = [], severity = ''healthy'', critical_events = [],
              warning_events = []\<rparr> :: unit locals"
  let ?az = "[(''exists'', PBool True), (''state'', PStr ''available'')] :: unit pydict"
  let ?events = "[PDict [(''eventTypeCategory'', PStr ''issue'')], PDict ?ev] :: unit pyval list"
  let ?info = "PDict [(''arn'', PStr ''arn:aws:health:us-east-1::event/EC2/1''),
                  (''service'', PNone),
                  (''event_type_code'', PNone), (''event_type_category'', PStr []),
                  (''status'', PNone), (''start_time'', PStr ''T''), (''end_time'', PNone),
                  (''last_updated'', PNone)] :: unit pyval"
  have w: "well_formed_event (PDict ?ev)"
    by (simp add: well_formed_event_def timestamp_ok_def dict_get_def)
  have c: "map_of ?ev ''eventTypeCategory'' = None"
    by simp
  have e: "truthy (dict_get ?az ''exists'' PNone)"
    by (simp add: dict_get_def)
  have i: "event_info ?L ?ev = Inr ?info"
    by (simp add: event_info_def isoformat_or_none_def dict_get_def)
  obtain v where r: "analyze_health_status ?L (PDict ?az) (PList ?events) = Inr v"
    by (simp add: run_simps)
  have m: "PDict ?ev \<in> set ?events"
    by simp
  from informational_event_rule[OF w disjI1[OF c], of ?L ?st] i
  have step: "classify_event ?L (PDict ?ev) ?st =
                Inr (?st\<lparr>warning_events := warning_events ?st @ [?info],
                         severity := (if severity ?st = ''healthy'' then ''warning''
                                      else severity ?st)\<rparr>)"
    and run: "\<forall>az events v.
                 truthy (dict_get az ''exists'' PNone)
                 \<and> analyze_health_status ?L (PDict az) (PList events) = Inr v
                 \<and> PDict ?ev \<in> set events \<longrightarrow>
                 ?info \<in> set (bucket ''warning_events'' v)
                 \<and> ?info \<notin> set (bucket ''critical_events'' v)"
    by auto
  from run e r m have "?info \<in> set (bucket ''warning_events'' v)
                 \<and> ?info \<notin> set (bucket ''critical_events'' v)"
    by blast
  with w c e r step show ?thesis
    by auto
qed

section \<open>Operator messages\<close>

text \<open>
  Claim C4. When \<open>messages\<close> is a list, the message check appends one issue per message,
  \<open>AZ message: \<close> followed by the message (a string message is quoted as it is), and
  changes the severity only from \<open>healthy\<close> to \<open>warning\<close>; an empty list changes
  nothing. In every run on an existing zone that returns, the issues are those of the
  state check, then one per message in order, then one per critical event. For an
  existing zone in state \<open>available\<close> with a non-empty list of messages and no events
  the result is status \<open>degraded\<close>, severity \<open>warning\<close>, one issue per message.
\<close>

theorem operator_message_rule:
  assumes "dict_get az ''messages'' PNone = PList msgs"
  shows "check_messages L az st =
           Inr (if msgs = [] then st
                else st\<lparr>issues := issues st @
                             map (\<lambda>msg. PStr (''AZ message: '' @ py_format L msg)) msgs,
                        severity := (if severity st = ''healthy'' then ''warning''
                                     else severity st)\<rparr>)
         \<and> (\<forall>m. py_format L (PStr m) = m)
         \<and> (\<forall>events v.
               truthy (dict_get az ''exists'' PNone)
               \<and> analyze_health_status L (PDict az) (PList events) = Inr v \<longrightarrow>
               field ''issues'' v = Some (PList
                 (issues (check_state L az initial_locals)
                  @ map (\<lambda>msg. PStr (''AZ message: '' @ py_format L msg)) msgs
                  @ map (critical_issue L) (filter critical_category events))))
         \<and> (truthy (dict_get az ''exists'' PNone)
              \<and> dict_get az ''state'' PNone = PStr ''available'' \<and> msgs \<noteq> [] \<longrightarrow>
             analyze_health_status L (PDict az) (PList []) = Inr (PDict
               [(''status'', PStr ''degraded''),
                (''severity'', PStr ''warning''),
                (''message'', PStr ''AZ is degraded''),
                (''issues'', PList (map (\<lambda>msg. PStr (''AZ message: '' @ py_format L msg)) msgs)),
                (''critical_events'', PList []),
                (''warning_events'', PList []),
                (''az_info'', PDict az)]))"
proof -
  have rule: "check_messages L az s =
           Inr (if msgs = [] then s
                else s\<lparr>issues := issues s @
                             map (\<lambda>msg. PStr (''AZ message: '' @ py_format L msg)) msgs,
                        severity := (if severity s = ''healthy'' then ''warning''
                                     else severity s)\<rparr>)" for s
  proof (cases "msgs = []")
    case True
    with assms show ?thesis by (simp add: check_messages_falsy)
  next
    case False
    with assms have "truthy (dict_get az ''messages'' PNone)" by simp
    from check_messages_truthy[OF this] assms False show ?thesis by simp
  qed
  have run: "field ''issues'' v = Some (PList
                 (issues (check_state L az initial_locals)
                  @ map (\<lambda>msg. PStr (''AZ message: '' @ py_format L msg)) msgs
                  @ map (critical_issue L) (filter critical_category events)))"
    if e: "truthy (dict_get az ''exists'' PNone)"
      and r: "analyze_health_status L (PDict az) (PList events) = Inr v" for events v
  proof -
    from e r obtain st2 where
      m: "check_messages L az (check_state L az initial_locals) = Inr st2"
      and v: "v = verdict (PDict az) (after_events L events st2)"
      by (rule analyze_list_Inr_verdict)
    from m have "issues st2 = issues (check_state L az initial_locals)
                  @ map (\<lambda>msg. PStr (''AZ message: '' @ py_format L msg)) msgs"
      by (auto simp: rule split: if_splits)
    then show ?thesis
      by (simp add: v field_verdict after_events_def)
  qed
  have scenario: "analyze_health_status L (PDict az) (PList []) = Inr (PDict
               [(''status'', PStr ''degraded''),
                (''severity'', PStr ''warning''),
                (''message'', PStr ''AZ is degraded''),
                (''issues'', PList (map (\<lambda>msg. PStr (''AZ message: '' @ py_format L msg)) msgs)),
                (''critical_events'', PList []),
                (''warning_events'', PList []),
                (''az_info'', PDict az)])"
    if "truthy (dict_get az ''exists'' PNone)"
      and "dict_get az ''state'' PNone = PStr ''available''" and "msgs \<noteq> []"
    using that
    by (simp add: rule analyze_exists check_state_def initial_locals_def verdict_def
          overall_status_def)
  show ?thesis
    using rule run scenario by (intro conjI allI impI) auto
qed

theorem operator_message_rule_witness:
  "dict_get [(''exists'', PBool True), (''state'', PStr ''available''),
             (''messages'', PList [PStr ''scheduled maintenance''])] ''messages'' PNone
     = PList [PStr ''scheduled maintenance'' :: unit pyval]
   \<and> truthy (dict_get [(''exists'', PBool True), (''state'', PStr ''available''),
             (''messages'', PList [PStr ''scheduled maintenance''])] ''exists'' (PNone :: unit pyval))
   \<and> dict_get [(''exists'', PBool True), (''state'', PStr ''available''),
             (''messages'', PList [PStr ''scheduled maintenance''])] ''state'' (PNone :: unit pyval)
       = PStr ''available''
   \<and> analyze_health_status \<lparr>isoformat = (\<lambda>t::unit. ''T''), str_other = (\<lambda>v. ''?'')\<rparr>
        (PDict [(''exists'', PBool True), (''state'', PStr ''available''),
                (''messages'', PList [PStr ''scheduled maintenance''])])
        (PList [])
      = Inr (PDict
          [(''status'', PStr ''degraded''),
           (''severity'', PStr ''warning''),
           (''message'', PStr ''AZ is degraded''),
           (''issues'', PList [PStr ''AZ message: scheduled maintenance'']),
           (''critical_events'', PList []),
           (''warning_events'', PList []),
           (''az_info'', PDict [(''exists'', PBool True), (''state'', PStr ''available''),
                                (''messages'', PList [PStr ''scheduled maintenance''])])])
   \<and> (\<exists>v. analyze_health_status \<lparr>isoformat = (\<lambda>t::unit. ''T''), str_other = (\<lambda>v. ''?'')\<rparr>
          (PDict [(''exists'', PBool True), (''state'', PStr ''available''),
                  (''messages'', PList [PStr ''scheduled maintenance''])])
          (PList [PDict [(''eventTypeCategory'', PStr ''issue''),
                         (''eventTypeCode'', PStr ''AWS_EC2_OPERATIONAL_ISSUE''),
                         (''service'', PStr ''EC2'')]]) = Inr v
        \<and> field ''issues'' v = Some (PList
             [PStr ''AZ message: scheduled maintenance'',
              PStr ''Critical event: AWS_EC2_OPERATIONAL_ISSUE - EC2'']))"
proof -
  let ?L = "\<lparr>isoformat = (\<lambda>t::unit. ''T''), str_other = (\<lambda>v. ''?'')\<rparr>"
  let ?az = "[(''exists'', PBool True), (''state'', PStr ''available''),
              (''messages'', PList [PStr ''scheduled maintenance''])] :: unit pydict"
  let ?events = "[PDict [(''eventTypeCategory'', PStr ''issue''),
                         (''eventTypeCode'', PStr ''AWS_EC2_OPERATIONAL_ISSUE''),
                         (''service'', PStr ''EC2'')]] :: unit pyval list"
  have m: "dict_get ?az ''messages'' PNone = PList [PStr ''scheduled maintenance'']"
    by (simp add: dict_get_def)
  have e: "truthy (dict_get ?az ''exists'' PNone)"
    by (simp add: dict_get_def)
  have s: "dict_get ?az ''state'' PNone = PStr ''available''"
    by (simp add: dict_get_def)
  obtain v where r: "analyze_health_status ?L (PDict ?az) (PList ?events) = Inr v"
    by (simp add: run_simps)
  note rule = operator_message_rule[OF m, of ?L initial_locals]
  from rule e r have "field ''issues'' v = Some (PList
                 (issues (check_state ?L ?az initial_locals)
                  @ map (\<lambda>msg. PStr (''AZ message: '' @ py_format ?L msg))
                      [PStr ''scheduled maintenance'']
                  @ map (critical_issue ?L) (filter critical_category ?events)))"
    by blast
  then have i: "field ''issues'' v = Some (PList
             [PStr ''AZ message: scheduled maintenance'',
              PStr ''Critical event: AWS_EC2_OPERATIONAL_ISSUE - EC2''])"
    by (simp add: check_state_def initial_locals_def dict_get_def critical_issue_def
          critical_category_def)
  from rule e s have "analyze_health_status ?L (PDict ?az) (PList []) = Inr (PDict
          [(''status'', PStr ''degraded''),
           (''severity'', PStr ''warning''),
           (''message'', PStr ''AZ is degraded''),
           (''issues'', PList [PStr ''AZ message: scheduled maintenance'']),
           (''critical_events'', PList []),
           (''warning_events'', PList []),
           (''az_info'', PDict ?az)])"
    by simp
  with m e s r i show ?thesis
    by blast
qed

section \<open>A critical event\<close>

text \<open>
  Claim C5. For an existing zone in state \<open>available\<close> without messages and one event
  of category \<open>issue\<close> (its timestamps datetimes or absent), the result has status
  \<open>unhealthy\<close> and severity \<open>critical\<close>; the event's \<open>event_info\<close> is the only entry
  of the critical bucket, the warning bucket is empty, and the only issue names the
  event's type code and its service.
\<close>

theorem critical_event_dominates:
  assumes "truthy (dict_get az ''exists'' PNone)"
    and "dict_get az ''state'' PNone = PStr ''available''"
    and "\<not> truthy (dict_get az ''messages'' PNone)"
    and "dict_get ev ''eventTypeCategory'' (PStr []) = PStr ''issue''"
    and "well_formed_event (PDict ev)"
  shows "\<exists>info. event_info L ev = Inr info
           \<and> analyze_health_status L (PDict az) (PList [PDict ev]) = Inr (PDict
               [(''status'', PStr ''unhealthy''),
                (''severity'', PStr ''critical''),
                (''message'', PStr ''AZ is unhealthy''),
                (''issues'', PList [PStr (''Critical event: ''
                                          @ py_format L (dict_get ev ''eventTypeCode'' PNone)
                                          @ '' - '' @ py_format L (dict_get ev ''service'' PNone))]),
                (''critical_events'', PList [info]),
                (''warning_events'', PList []),
                (''az_info'', PDict az)])
           \<and> field ''event_type_code'' info = Some (dict_get ev ''eventTypeCode'' PNone)
           \<and> field ''service'' info = Some (dict_get ev ''service'' PNone)
           \<and> field ''event_type_category'' info = Some (PStr ''issue'')"
proof -
  have c: "critical_category (PDict ev)"
    using assms(4) by (simp add: critical_category_def)
  have "analyze_health_status L (PDict az) (PList [PDict ev])
          = Inr (verdict (PDict az) (after_events L [PDict ev] initial_locals))"
    using assms(1,2,3,5)
    by (simp add: analyze_exists check_state_def check_messages_falsy classify_event_ok
          after_events_def severity_after_def)
  then show ?thesis
    using c assms(4)
    by (simp add: event_info_ok[OF assms(5)] verdict_def after_events_def severity_after_def
          initial_locals_def overall_status_def critical_issue_def summary_def field_def)
qed

theorem critical_event_dominates_witness:
  "truthy (dict_get [(''exists'', PBool True), (''state'', PStr ''available''),
                     (''messages'', PList [])] ''exists'' (PNone :: unit pyval))
   \<and> dict_get [(''exists'', PBool True), (''state'', PStr ''available''),
                (''messages'', PList [])] ''state'' (PNone :: unit pyval) = PStr ''available''
   \<and> \<not> truthy (dict_get [(''exists'', PBool True), (''state'', PStr ''available''),
                (''messages'', PList [])] ''messages'' (PNone :: unit pyval))
   \<and> dict_get [(''eventTypeCategory'', PStr ''issue''),
                (''eventTypeCode'', PStr ''AWS_EC2_OPERATIONAL_ISSUE''),
                (''service'', PStr ''EC2''), (''startTime'', PDatetime ())]
         ''eventTypeCategory'' (PStr []) = PStr ''issue''
   \<and> well_formed_event (PDict [(''eventTypeCategory'', PStr ''issue''),
                (''eventTypeCode'', PStr ''AWS_EC2_OPERATIONAL_ISSUE''),
                (''service'', PStr ''EC2''), (''startTime'', PDatetime ())])
   \<and> analyze_health_status \<lparr>isoformat = (\<lambda>t::unit. ''T''), str_other = (\<lambda>v. ''?'')\<rparr>
        (PDict [(''exists'', PBool True), (''state'', PStr ''available''),
                (''messages'', PList [])])
        (PList [PDict [(''eventTypeCategory'', PStr ''issue''),
                       (''eventTypeCode'', PStr ''AWS_EC2_OPERATIONAL_ISSUE''),
                       (''service'', PStr ''EC2''), (''startTime'', PDatetime ())]])
      = Inr (PDict
          [(''status'', PStr ''unhealthy''),
           (''severity'', PStr ''critical''),
           (''message'', PStr ''AZ is unhealthy''),
           (''issues'', PList [PStr ''Critical event: AWS_EC2_OPERATIONAL_ISSUE - EC2'']),
           (''critical_events'', PList [PDict
              [(''arn'', PNone), (''service'', PStr ''EC2''),
               (''event_type_code'', PStr ''AWS_EC2_OPERATIONAL_ISSUE''),
               (''event_type_category'', PStr ''issue''), (''status'', PNone),
               (''start_time'', PStr ''T''), (''end_time'', PNone), (''last_updated'', PNone)]]),
           (''warning_events'', PList []),
           (''az_info'', PDict [(''exists'', PBool True), (''state'', PStr ''available''),
                                (''messages'', PList [])])])"
proof -
  let ?L = "\<lparr>isoformat = (\<lambda>t::unit. ''T''), str_other = (\<lambda>v. ''?'')\<rparr>"
  let ?az = "[(''exists'', PBool True), (''state'', PStr ''available''),
              (''messages'', PList [])] :: unit pydict"
  let ?ev = "[(''eventTypeCategory'', PStr ''issue''),
              (''eventTypeCode'', PStr ''AWS_EC2_OPERATIONAL_ISSUE''),
              (''service'', PStr ''EC2''), (''startTime'', PDatetime ())] :: unit pydict"
  have e: "truthy (dict_get ?az ''exists'' PNone)"
    by (simp add: dict_get_def)
  have s: "dict_get ?az ''state'' PNone = PStr ''available''"
    by (simp add: dict_get_def)
  have m: "\<not> truthy (dict_get ?az ''messages'' PNone)"
    by (simp add: dict_get_def)
  have c: "dict_get ?ev ''eventTypeCategory'' (PStr []) = PStr ''issue''"
    by (simp add: dict_get_def)
  have w: "well_formed_event (PDict ?ev)"
    by (simp add: well_formed_event_def timestamp_ok_def dict_get_def)
  from critical_event_dominates[OF e s m c w, of ?L] e s m c w show ?thesis
    by (simp add: event_info_def isoformat_or_none_def dict_get_def)
qed

section \<open>Totality\<close>




section \<open>The handler without a zone\<close>

text \<open>
  Claim C9, as the code has it. When the request has no \<open>availability_zone\<close> (or a
  false one), the handler returns status code 400 with a body that holds one key,
  \<open>error\<close>, and no \<open>message\<close>. The result is the same whatever boto3 and the clock
  would answer, and the state is unchanged: no client is created and no lookup is made,
  so there is nothing to classify.
\<close>

theorem missing_zone_bad_request:
  assumes "map_of ev ''availability_zone'' = None
           \<or> \<not> truthy (dict_get ev ''availability_zone'' PNone)"
  shows "lambda_handler E (PDict ev) context w =
           (\<lparr>statusCode = 400,
             body = PDict [(''error'', PStr ''Missing required parameter: availability_zone'')]\<rparr>,
            w)
         \<and> field ''error'' (body (fst (lambda_handler E (PDict ev) context w)))
             = Some (PStr ''Missing required parameter: availability_zone'')
         \<and> field ''message'' (body (fst (lambda_handler E (PDict ev) context w))) = None"
proof -
  from assms have "\<not> truthy (dict_get ev ''availability_zone'' PNone)"
    by (auto simp: dict_get_def)
  then show ?thesis
    by (simp add: lambda_handler_def handler_try_def field_def)
qed

theorem missing_zone_bad_request_witness:
  "map_of [(''region'', PStr ''eu-west-1'') :: string \<times> unit pyval] ''availability_zone'' = None
   \<and> lambda_handler
     \<lparr>isoformat = (\<lambda>t::unit. ''T''), str_other = (\<lambda>v. ''?''), now = (),
      exn_str = (\<lambda>e. ''failed''), new_ec2_client = (\<lambda>r. Inl (OtherException ''no client'')),
      describe_availability_zones = (\<lambda>r z. Inl (ClientError ''AuthFailure'')),
      describe_events_pages = (\<lambda>r z. [Inl (ClientError ''AccessDenied'')])\<rparr>
     (PDict [(''region'', PStr ''eu-west-1'')]) ()
     \<lparr>ec2_client_region = ''us-east-1'', api_calls = []\<rparr>
   = (\<lparr>statusCode = 400,
       body = PDict [(''error'', PStr ''Missing required parameter: availability_zone'')]\<rparr>,
      \<lparr>ec2_client_region = ''us-east-1'', api_calls = []\<rparr>)"
proof -
  let ?E = "\<lparr>isoformat = (\<lambda>t::unit. ''T''), str_other = (\<lambda>v. ''?''), now = (),
      exn_str = (\<lambda>e. ''failed''), new_ec2_client = (\<lambda>r. Inl (OtherException ''no client'')),
      describe_availability_zones = (\<lambda>r z. Inl (ClientError ''AuthFailure'')),
      describe_events_pages = (\<lambda>r z. [Inl (ClientError ''AccessDenied'')])\<rparr>"
  let ?w = "\<lparr>ec2_client_region = ''us-east-1'', api_calls = []\<rparr> :: unit world"
  have a: "map_of [(''region'', PStr ''eu-west-1'') :: string \<times> unit pyval]
             ''availability_zone'' = None"
    by simp
  from missing_zone_bad_request[OF disjI1[OF a], of ?E "()" ?w] a
  show ?thesis
    by simp
qed

text \<open>
  The claim as the specification states it, that the body of the 400 result holds both
  an \<open>error\<close> and a \<open>message\<close>, does not hold: the body has no \<open>message\<close>.
\<close>

theorem missing_zone_no_message:
  "lambda_handler
     \<lparr>isoformat = (\<lambda>t::unit. ''T''), str_other = (\<lambda>v. ''?''), now = (),
      exn_str = (\<lambda>e. ''failed''), new_ec2_client = (\<lambda>r. Inr ''us-east-1''),
      describe_availability_zones = (\<lambda>r z. Inr (PDict [])),
      describe_events_pages = (\<lambda>r z. [])\<rparr>
     (PDict [(''region'', PStr ''us-east-1'')]) ()
     \<lparr>ec2_client_region = ''us-east-1'', api_calls = []\<rparr>
   = (\<lparr>statusCode = 400,
       body = PDict [(''error'', PStr ''Missing required parameter: availability_zone'')]\<rparr>,
      \<lparr>ec2_client_region = ''us-east-1'', api_calls = []\<rparr>)
   \<and> field ''message''
        (PDict [(''error'', PStr ''Missing required parameter: availability_zone'')] :: unit pyval)
       = None"
  by (simp add: lambda_handler_def handler_try_def field_def dict_get_def)

end
